theory Spec2Isabelle
  imports Complex_Main
begin

section \<open>The cache controller of hishel\<close>

text \<open>
  A shallow embedding of \<^verbatim>\<open>src/hishel/_controller.py\<close>: the class \<^verbatim>\<open>Controller\<close>,
  which decides whether an HTTP response may be stored, whether a stored response may be
  served, and how a revalidation result is merged into the stored entry.

  Byte strings are \<^typ>\<open>string\<close> (a \<^typ>\<open>char\<close> is one byte). A header list is a list of
  (name, value) pairs, as in httpcore; the attributes \<^verbatim>\<open>method\<close> and \<^verbatim>\<open>headers\<close> of a
  request are the fields \<open>request_method\<close> and \<open>request_headers\<close>. Every exception the
  Python raises is a value \<open>Inl e\<close> of a sum type. Objects that the Python mutates in place (the request of
  \<^verbatim>\<open>make_request_conditional\<close>) are returned in their new state.
\<close>

subsection \<open>Data\<close>

type_synonym bytes = string

type_synonym headers = "(bytes \<times> bytes) list"

record Request =
  request_method :: bytes
  request_headers :: headers

record Response =
  status :: int
  response_headers :: headers

datatype error = UnicodeDecodeError | IndexError | DateParseError | TypeError

text \<open>
  The directive set that \<^verbatim>\<open>CacheControl.from_value\<close> builds. The controller reads the
  attributes \<^verbatim>\<open>no_store\<close>, \<^verbatim>\<open>no_cache\<close>, \<^verbatim>\<open>public\<close>, \<^verbatim>\<open>private\<close>,
  \<^verbatim>\<open>must_revalidate\<close> and \<^verbatim>\<open>max_age\<close>; the attribute \<^verbatim>\<open>private\<close> is the field
  \<open>private_directive\<close> here.
\<close>

record CacheControl =
  no_store :: bool
  no_cache :: bool
  public :: bool
  private_directive :: bool
  must_revalidate :: bool
  max_age :: "int option"
  s_maxage :: "int option"

text \<open>
  \<^verbatim>\<open>Controller.__init__\<close>: an argument that is \<^verbatim>\<open>None\<close> or an empty list is falsy
  and gives the default.
\<close>

record Controller =
  cacheable_methods :: "string list"
  cacheable_status_codes :: "int list"

definition Controller_init :: "string list option \<Rightarrow> int list option \<Rightarrow> Controller" where
  "Controller_init methods codes =
     \<lparr> cacheable_methods =
         (case methods of None \<Rightarrow> [''GET'']
          | Some ms \<Rightarrow> if ms \<noteq> [] then ms else [''GET'']),
       cacheable_status_codes =
         (case codes of None \<Rightarrow> [200]
          | Some cs \<Rightarrow> if cs \<noteq> [] then cs else [200]) \<rparr>"

definition HEURISTICALLY_CACHABLE :: "int list" where
  "HEURISTICALLY_CACHABLE = [200, 203, 204, 206, 300, 301, 308, 404, 405, 410, 414, 501]"

subsection \<open>Python primitives\<close>

text \<open>\<^verbatim>\<open>bytes.lower()\<close>: the ASCII letters A to Z become a to z, every other byte stays.\<close>

definition lower_byte :: "char \<Rightarrow> char" where
  "lower_byte c =
     (case map_of (zip ''ABCDEFGHIJKLMNOPQRSTUVWXYZ'' ''abcdefghijklmnopqrstuvwxyz'') c of
        Some d \<Rightarrow> d
      | None \<Rightarrow> c)"

definition lower :: "bytes \<Rightarrow> bytes" where
  "lower b = map lower_byte b"

text \<open>\<^verbatim>\<open>b.decode('ascii')\<close> raises on a byte above 127.\<close>

definition decode_ascii :: "bytes \<Rightarrow> error + string" where
  "decode_ascii b = (if list_ex digit7 b then Inl UnicodeDecodeError else Inr b)"

text \<open>\<^verbatim>\<open>xs[0]\<close> raises \<^verbatim>\<open>IndexError\<close> on an empty list.\<close>

definition index0 :: "'a list \<Rightarrow> error + 'a" where
  "index0 xs = (case xs of [] \<Rightarrow> Inl IndexError | x # _ \<Rightarrow> Inr x)"

subsection \<open>Header utilities\<close>

text \<open>
  Modelled from the spec: \<^verbatim>\<open>extract_header_values\<close>, \<^verbatim>\<open>extract_header_values_decoded\<close>
  and \<^verbatim>\<open>header_presents\<close> of \<^verbatim>\<open>hishel/_utils.py\<close>, which the controller imports and
  which is not among the source files. The spec (4.1): extraction "returns all values for
  a case-insensitively matching name, in original order; if \<^verbatim>\<open>single\<close> is set, returns at
  most one (the first match)"; presence is a "case-insensitive membership test". The
  decoded variant returns the same values as text; the decoding is the identity here.
\<close>

definition extract_header_values :: "headers \<Rightarrow> bytes \<Rightarrow> bool \<Rightarrow> bytes list" where
  "extract_header_values hs header_key single =
     (let extracted = map snd (filter (\<lambda>kv. lower (fst kv) = lower header_key) hs)
      in if single then take 1 extracted else extracted)"

definition extract_header_values_decoded :: "headers \<Rightarrow> bytes \<Rightarrow> bool \<Rightarrow> string list" where
  "extract_header_values_decoded hs header_key single =
     extract_header_values hs header_key single"

definition header_presents :: "headers \<Rightarrow> bytes \<Rightarrow> bool" where
  "header_presents hs header_key = (lower header_key \<in> set (map (\<lambda>kv. lower (fst kv)) hs))"

subsection \<open>The controller\<close>

text \<open>
  \<^verbatim>\<open>CacheControl.from_value\<close> (of \<^verbatim>\<open>hishel/_headers.py\<close>) and \<^verbatim>\<open>parse_date\<close> (of
  \<^verbatim>\<open>hishel/_utils.py\<close>) are not among the source files either. Every operation that calls
  them takes them as the parameters \<open>from_value\<close> and \<open>parse_date\<close>, so that what is proved
  holds for any directive parser and any date parser; \<open>parse_date\<close> returns \<open>Inl e\<close> where
  the Python raises. The reading \<^verbatim>\<open>time.time()\<close> of the clock is the parameter \<open>now\<close>.
\<close>

type_synonym cc_parser = "string list \<Rightarrow> CacheControl"

type_synonym date_parser = "string \<Rightarrow> error + int"

definition is_cachable :: "Controller \<Rightarrow> cc_parser \<Rightarrow> Request \<Rightarrow> Response \<Rightarrow> error + bool" where
  "is_cachable self from_value request response =
     (case decode_ascii (request_method request) of
        Inl e \<Rightarrow> Inl e
      | Inr decoded_method \<Rightarrow>
          let response_cache_control =
                from_value (extract_header_values_decoded (response_headers response) ''cache-control'' False)
          in if decoded_method \<notin> set (cacheable_methods self) then Inr False
             else if status response div 100 = 1 then Inr False
             else if no_store response_cache_control then Inr False
             else
               let expires_presents = header_presents (response_headers response) ''expiers''
               in if \<not> (public response_cache_control
                         \<or> private_directive response_cache_control
                         \<or> expires_presents
                         \<or> max_age response_cache_control \<noteq> None
                         \<or> status response \<in> set HEURISTICALLY_CACHABLE)
                  then Inr False
                  else Inr True)"

text \<open>
  \<^verbatim>\<open>get_updated_headers\<close>: the two loops, with the set \<^verbatim>\<open>checked\<close> and the list
  \<^verbatim>\<open>updated_headers\<close> as the loop state. The first loop adds the key to \<^verbatim>\<open>checked\<close>;
  the second loop does not.
\<close>

fun stored_loop :: "headers \<Rightarrow> headers \<Rightarrow> headers \<Rightarrow> bytes set \<times> headers \<Rightarrow> bytes set \<times> headers" where
  "stored_loop stored_response_headers new_response_headers [] state = state"
| "stored_loop stored_response_headers new_response_headers ((key, value) # rest) (checked, updated_headers) =
     (if key \<notin> checked \<and> lower key \<noteq> ''content-length'' then
        (let values = extract_header_values new_response_headers key False
         in if values \<noteq> [] then
              stored_loop stored_response_headers new_response_headers rest
                (insert key checked, updated_headers @ map (Pair key) values)
            else
              (let values = extract_header_values stored_response_headers key False
               in stored_loop stored_response_headers new_response_headers rest
                    (insert key checked, updated_headers @ map (Pair key) values)))
      else stored_loop stored_response_headers new_response_headers rest (checked, updated_headers))"

fun new_loop :: "headers \<Rightarrow> headers \<Rightarrow> bytes set \<Rightarrow> headers \<Rightarrow> headers" where
  "new_loop new_response_headers [] checked updated_headers = updated_headers"
| "new_loop new_response_headers ((key, value) # rest) checked updated_headers =
     (if key \<notin> checked \<and> lower key \<noteq> ''content-length'' then
        (let values = extract_header_values new_response_headers key False
         in new_loop new_response_headers rest checked (updated_headers @ map (Pair key) values))
      else new_loop new_response_headers rest checked updated_headers)"

definition get_updated_headers :: "Controller \<Rightarrow> headers \<Rightarrow> headers \<Rightarrow> headers" where
  "get_updated_headers self stored_response_headers new_response_headers =
     (case stored_loop stored_response_headers new_response_headers stored_response_headers ({}, []) of
        (checked, updated_headers) \<Rightarrow>
          new_loop new_response_headers new_response_headers checked updated_headers)"

definition get_freshness_lifetime ::
    "Controller \<Rightarrow> cc_parser \<Rightarrow> date_parser \<Rightarrow> Response \<Rightarrow> error + int option" where
  "get_freshness_lifetime self from_value parse_date response =
     (let response_cache_control =
            from_value (extract_header_values_decoded (response_headers response) ''Cache-Control'' False)
      in if max_age response_cache_control \<noteq> None then Inr (max_age response_cache_control)
         else if header_presents (response_headers response) ''expires'' then
           (case index0 (extract_header_values_decoded (response_headers response) ''expires'' True) of
              Inl e \<Rightarrow> Inl e
            | Inr expires \<Rightarrow>
               (case parse_date expires of
                  Inl e \<Rightarrow> Inl e
                | Inr expires_timestamp \<Rightarrow>
                   (case index0 (extract_header_values_decoded (response_headers response) ''date'' True) of
                      Inl e \<Rightarrow> Inl e
                    | Inr date \<Rightarrow>
                       (case parse_date date of
                          Inl e \<Rightarrow> Inl e
                        | Inr date_timestamp \<Rightarrow> Inr (Some (expires_timestamp - date_timestamp))))))
         else Inr None)"

text \<open>
  \<^verbatim>\<open>get_age\<close>: \<^verbatim>\<open>int(max(0, now - date))\<close>. The clock reading is a real number; on a
  value that is not negative \<^verbatim>\<open>int\<close> is the floor.
\<close>

definition get_age :: "Controller \<Rightarrow> date_parser \<Rightarrow> real \<Rightarrow> Response \<Rightarrow> error + int" where
  "get_age self parse_date now response =
     (case index0 (extract_header_values_decoded (response_headers response) ''date'' False) of
        Inl e \<Rightarrow> Inl e
      | Inr d \<Rightarrow>
         (case parse_date d of
            Inl e \<Rightarrow> Inl e
          | Inr date \<Rightarrow>
              let apparent_age = max 0 (now - real_of_int date)
              in Inr \<lfloor>apparent_age\<rfloor>))"

text \<open>
  \<^verbatim>\<open>make_request_conditional\<close> returns nothing and extends \<^verbatim>\<open>request.headers\<close> in
  place: the model returns the request in its new state. \<^verbatim>\<open>if last_modified:\<close> tests
  truthiness, which is false for \<^verbatim>\<open>None\<close> and for the empty byte string.
\<close>

definition truthy :: "bytes option \<Rightarrow> bool" where
  "truthy v = (case v of None \<Rightarrow> False | Some b \<Rightarrow> b \<noteq> [])"

definition first_value :: "headers \<Rightarrow> bytes \<Rightarrow> error + bytes option" where
  "first_value hs header_key =
     (if header_presents hs header_key then
        (case index0 (extract_header_values hs header_key True) of
           Inl e \<Rightarrow> Inl e
         | Inr v \<Rightarrow> Inr (Some v))
      else Inr None)"

definition make_request_conditional :: "Controller \<Rightarrow> Request \<Rightarrow> Response \<Rightarrow> error + Request" where
  "make_request_conditional self request response =
     (case first_value (response_headers response) ''last-modified'' of
        Inl e \<Rightarrow> Inl e
      | Inr last_modified \<Rightarrow>
         (case first_value (response_headers response) ''etag'' of
            Inl e \<Rightarrow> Inl e
          | Inr etag \<Rightarrow>
              let precondition_headers =
                    (if truthy last_modified then [(''If-Unmodified-Since'', the last_modified)] else [])
                    @ (if truthy etag then [(''If-None-Match'', the etag)] else [])
              in Inr (request\<lparr>request_headers := request_headers request @ precondition_headers\<rparr>)))"

definition alloweed_stale :: "Controller \<Rightarrow> cc_parser \<Rightarrow> Response \<Rightarrow> bool" where
  "alloweed_stale self from_value response =
     (let response_cache_control =
            from_value (extract_header_values_decoded (response_headers response) ''Cache-Control'' False)
      in if no_cache response_cache_control then False
         else if must_revalidate response_cache_control then False
         else True)"

text \<open>
  What \<^verbatim>\<open>construct_response_from_cache\<close> returns: the stored response object, the
  request object, or (line 181, \<^verbatim>\<open>return Request\<close>) the class \<^verbatim>\<open>Request\<close> itself.
  The model returns it together with the state of the caller's request object after the
  call. \<^verbatim>\<open>age > freshness_lifetime\<close> with \<^verbatim>\<open>freshness_lifetime\<close> being \<^verbatim>\<open>None\<close>
  raises \<^verbatim>\<open>TypeError\<close> in Python 3.
\<close>

datatype returned = ReturnedResponse Response | ReturnedRequest Request | ReturnedRequestClass

definition construct_response_from_cache ::
    "Controller \<Rightarrow> cc_parser \<Rightarrow> date_parser \<Rightarrow> real \<Rightarrow> Request \<Rightarrow> Response
       \<Rightarrow> error + (returned \<times> Request)" where
  "construct_response_from_cache self from_value parse_date now request response =
     (let response_cache_control =
            from_value (extract_header_values_decoded (response_headers response) ''Cache-Control'' False)
      in if no_cache response_cache_control then
           (case make_request_conditional self request response of
              Inl e \<Rightarrow> Inl e
            | Inr request' \<Rightarrow> Inr (ReturnedRequest request', request'))
         else
           (case get_freshness_lifetime self from_value parse_date response of
              Inl e \<Rightarrow> Inl e
            | Inr freshness_lifetime \<Rightarrow>
               (case get_age self parse_date now response of
                  Inl e \<Rightarrow> Inl e
                | Inr age \<Rightarrow>
                   (case freshness_lifetime of
                      None \<Rightarrow> Inl TypeError
                    | Some lifetime \<Rightarrow>
                        let is_fresh = (age > lifetime)
                        in if is_fresh \<or> alloweed_stale self from_value response then
                             Inr (ReturnedResponse response, request)
                           else
                             (case make_request_conditional self request response of
                                Inl e \<Rightarrow> Inl e
                              | Inr request' \<Rightarrow> Inr (ReturnedRequestClass, request'))))))"

text \<open>
  \<^verbatim>\<open>handle_validation_response\<close>: on 304 the old response object gets the merged headers
  and is returned; otherwise the new response is returned.
\<close>

definition handle_validation_response :: "Controller \<Rightarrow> Response \<Rightarrow> Response \<Rightarrow> Response" where
  "handle_validation_response self old_response new_response =
     (if status new_response = 304 then
        old_response\<lparr>response_headers :=
          get_updated_headers self (response_headers old_response) (response_headers new_response)\<rparr>
      else new_response)"

subsection \<open>The directive parser and the date parser\<close>

text \<open>
  Modelled from the spec: \<^verbatim>\<open>CacheControl.from_value\<close> of \<^verbatim>\<open>hishel/_headers.py\<close>, which
  is not among the source files. The spec (4.2): "split on commas, trim whitespace, and
  parse each token as either a bare flag (no-store, no-cache, public, private,
  must-revalidate) or a name=value pair (max-age=<int>, s-maxage=<int>). Unknown tokens are
  ignored. Numeric values that fail to parse as integers are ignored for that directive.
  Tokens are matched case-insensitively." An integer is a non-empty run of decimal digits
  here, and a later occurrence of a directive replaces an earlier one.
\<close>

definition is_space :: "char \<Rightarrow> bool" where
  "is_space c = (c \<in> set [CHR '' '', CHR 0x09])"

definition strip :: "string \<Rightarrow> string" where
  "strip s = rev (dropWhile is_space (rev (dropWhile is_space s)))"

fun split_on :: "char \<Rightarrow> string \<Rightarrow> string list" where
  "split_on d [] = [[]]"
| "split_on d (c # cs) =
     (if c = d then [] # split_on d cs
      else (case split_on d cs of [] \<Rightarrow> [[c]] | t # ts \<Rightarrow> (c # t) # ts))"

definition digit_value :: "char \<Rightarrow> int option" where
  "digit_value c = map_of (zip ''0123456789'' [0, 1, 2, 3, 4, 5, 6, 7, 8, 9]) c"

fun parse_digits :: "int \<Rightarrow> string \<Rightarrow> int option" where
  "parse_digits acc [] = Some acc"
| "parse_digits acc (c # cs) =
     (case digit_value c of None \<Rightarrow> None | Some d \<Rightarrow> parse_digits (10 * acc + d) cs)"

definition parse_int :: "string \<Rightarrow> int option" where
  "parse_int s = (if s = [] then None else parse_digits 0 s)"

definition empty_directives :: CacheControl where
  "empty_directives =
     \<lparr> no_store = False, no_cache = False, public = False, private_directive = False,
       must_revalidate = False, max_age = None, s_maxage = None \<rparr>"

definition parse_token :: "CacheControl \<Rightarrow> string \<Rightarrow> CacheControl" where
  "parse_token cc token =
     (let t = lower (strip token);
          name = strip (takeWhile (\<lambda>c. c \<noteq> CHR ''='') t);
          arg = strip (drop 1 (dropWhile (\<lambda>c. c \<noteq> CHR ''='') t))
      in if t = ''no-store'' then cc\<lparr>no_store := True\<rparr>
         else if t = ''no-cache'' then cc\<lparr>no_cache := True\<rparr>
         else if t = ''public'' then cc\<lparr>public := True\<rparr>
         else if t = ''private'' then cc\<lparr>private_directive := True\<rparr>
         else if t = ''must-revalidate'' then cc\<lparr>must_revalidate := True\<rparr>
         else if name = ''max-age'' \<and> CHR ''='' \<in> set t then
           (case parse_int arg of None \<Rightarrow> cc | Some n \<Rightarrow> cc\<lparr>max_age := Some n\<rparr>)
         else if name = ''s-maxage'' \<and> CHR ''='' \<in> set t then
           (case parse_int arg of None \<Rightarrow> cc | Some n \<Rightarrow> cc\<lparr>s_maxage := Some n\<rparr>)
         else cc)"

definition CacheControl_from_value :: cc_parser where
  "CacheControl_from_value raw_values =
     foldl parse_token empty_directives (concat (map (split_on CHR '','') raw_values))"

text \<open>
  Modelled from the spec: \<^verbatim>\<open>parse_date\<close> of \<^verbatim>\<open>hishel/_utils.py\<close>, which is not among the
  source files. The spec (4.1): it "parses an HTTP-date value (the standard IMF-fixdate
  format and commonly accepted legacy formats) into a Unix-epoch integer. Fails with a
  DateParseError on unrecognized formats". Only the IMF-fixdate format
  \<^verbatim>\<open>Sun, 06 Nov 1994 08:49:37 GMT\<close> is recognised here.
\<close>

definition month_number :: "string \<Rightarrow> int option" where
  "month_number m =
     map_of (zip [''Jan'', ''Feb'', ''Mar'', ''Apr'', ''May'', ''Jun'',
                  ''Jul'', ''Aug'', ''Sep'', ''Oct'', ''Nov'', ''Dec'']
                 [1, 2, 3, 4, 5, 6, 7, 8, 9, 10, 11, 12]) m"

definition days_from_civil :: "int \<Rightarrow> int \<Rightarrow> int \<Rightarrow> int" where
  "days_from_civil y m d =
     (let y' = (if m \<le> 2 then y - 1 else y);
          era = y' div 400;
          yoe = y' - era * 400;
          doy = (153 * (if m > 2 then m - 3 else m + 9) + 2) div 5 + d - 1;
          doe = yoe * 365 + yoe div 4 - yoe div 100 + doy
      in era * 146097 + doe - 719468)"

definition slice :: "nat \<Rightarrow> nat \<Rightarrow> string \<Rightarrow> string" where
  "slice i j s = take (j - i) (drop i s)"

definition parse_imf_fixdate :: date_parser where
  "parse_imf_fixdate s =
     (if length s = 29
         \<and> slice 0 3 s \<in> set [''Mon'', ''Tue'', ''Wed'', ''Thu'', ''Fri'', ''Sat'', ''Sun'']
         \<and> slice 3 5 s = '', '' \<and> slice 7 8 s = '' '' \<and> slice 11 12 s = '' ''
         \<and> slice 16 17 s = '' '' \<and> slice 19 20 s = '':'' \<and> slice 22 23 s = '':''
         \<and> slice 25 29 s = '' GMT''
      then
        (case (parse_int (slice 5 7 s), month_number (slice 8 11 s), parse_int (slice 12 16 s),
               parse_int (slice 17 19 s), parse_int (slice 20 22 s), parse_int (slice 23 25 s)) of
           (Some d, Some m, Some y, Some hh, Some mm, Some ss) \<Rightarrow>
             Inr (days_from_civil y m d * 86400 + hh * 3600 + mm * 60 + ss)
         | _ \<Rightarrow> Inl DateParseError)
      else Inl DateParseError)"

subsection \<open>Sample messages\<close>

text \<open>
  A request and stored responses on which the operations are evaluated below. The epoch
  date \<^verbatim>\<open>Thu, 01 Jan 1970 00:00:00 GMT\<close> makes the age of a response equal to the clock
  reading.
\<close>

definition get_request :: Request where
  "get_request = \<lparr> request_method = ''GET'', request_headers = [(''Host'', ''example.org'')] \<rparr>"

definition r_maxage_expires :: Response where
  "r_maxage_expires = \<lparr> status = 200, response_headers =
      [(''Cache-Control'', ''max-age=100''),
       (''Date'', ''Thu, 01 Jan 1970 00:00:00 GMT''),
       (''Expires'', ''Thu, 01 Jan 1970 01:00:00 GMT'')] \<rparr>"

definition r_expires :: Response where
  "r_expires = \<lparr> status = 200, response_headers =
      [(''Date'', ''Sun, 06 Nov 1994 08:49:37 GMT''),
       (''Expires'', ''Sun, 06 Nov 1994 09:49:37 GMT'')] \<rparr>"

definition r_plain :: Response where
  "r_plain = \<lparr> status = 200, response_headers =
      [(''Date'', ''Sun, 06 Nov 1994 08:49:37 GMT'')] \<rparr>"

definition r_validators :: Response where
  "r_validators = \<lparr> status = 200, response_headers =
      [(''Date'', ''Thu, 01 Jan 1970 00:00:00 GMT''),
       (''Cache-Control'', ''max-age=100, must-revalidate''),
       (''ETag'', ''v1''),
       (''Last-Modified'', ''Wed, 31 Dec 1969 00:00:00 GMT'')] \<rparr>"

definition r_dated :: Response where
  "r_dated = \<lparr> status = 200, response_headers =
      [(''Date'', ''Thu, 01 Jan 1970 00:00:00 GMT''), (''ETag'', ''v1'')] \<rparr>"

definition r_empty_last_modified :: Response where
  "r_empty_last_modified = \<lparr> status = 200, response_headers =
      [(''Last-Modified'', ''''), (''ETag'', ''v1'')] \<rparr>"

definition r_expires_only :: Response where
  "r_expires_only = \<lparr> status = 302, response_headers =
      [(''Expires'', ''Sun, 06 Nov 1994 09:49:37 GMT'')] \<rparr>"

definition r_found :: Response where
  "r_found = \<lparr> status = 302, response_headers = [] \<rparr>"

definition r_bad_expires :: Response where
  "r_bad_expires = \<lparr> status = 200, response_headers =
      [(''Date'', ''Sun, 06 Nov 1994 08:49:37 GMT''), (''Expires'', ''0'')] \<rparr>"

definition r_bad_date :: Response where
  "r_bad_date = \<lparr> status = 200, response_headers =
      [(''Date'', ''yesterday''), (''Expires'', ''Sun, 06 Nov 1994 09:49:37 GMT'')] \<rparr>"

section \<open>Properties\<close>

subsection \<open>Facts about the header utilities and evaluation rules\<close>

lemma extract_single_nonempty:
  "extract_header_values hs k True \<noteq> [] \<longleftrightarrow> header_presents hs k"
proof -
  have "filter (\<lambda>kv. lower (fst kv) = lower k) hs \<noteq> [] \<longleftrightarrow> lower k \<in> set (map (\<lambda>kv. lower (fst kv)) hs)"
    by (induction hs) auto
  then show ?thesis
    by (cases "filter (\<lambda>kv. lower (fst kv) = lower k) hs")
       (simp_all add: extract_header_values_def header_presents_def)
qed

lemma new_loop_excludes:
  "''content-length'' \<notin> set (map (\<lambda>kv. lower (fst kv)) acc) \<Longrightarrow>
   ''content-length'' \<notin> set (map (\<lambda>kv. lower (fst kv)) (new_loop new xs checked acc))"
proof (induction xs arbitrary: acc)
  case Nil
  then show ?case by simp
next
  case (Cons kv xs)
  obtain key v where kv: "kv = (key, v)" by (cases kv)
  show ?case
  proof (cases "key \<notin> checked \<and> lower key \<noteq> ''content-length''")
    case True
    then have "''content-length'' \<notin> set (map (\<lambda>kv. lower (fst kv))
        (acc @ map (Pair key) (extract_header_values new key False)))"
      using Cons.prems by auto
    from Cons.IH [OF this] True show ?thesis by (simp add: kv Let_def)
  next
    case False
    then have "new_loop new (kv # xs) checked acc = new_loop new xs checked acc"
      by (auto simp: kv)
    with Cons show ?thesis by simp
  qed
qed

lemma stored_loop_excludes:
  "''content-length'' \<notin> set (map (\<lambda>kv. lower (fst kv)) (snd st)) \<Longrightarrow>
   ''content-length'' \<notin> set (map (\<lambda>kv. lower (fst kv)) (snd (stored_loop stored new xs st)))"
proof (induction xs arbitrary: st)
  case Nil
  then show ?case by simp
next
  case (Cons kv xs)
  obtain key v where kv: "kv = (key, v)" by (cases kv)
  obtain checked acc where st: "st = (checked, acc)" by (cases st)
  show ?case
  proof (cases "key \<notin> checked \<and> lower key \<noteq> ''content-length''")
    case True
    have ok: "''content-length'' \<notin> set (map (\<lambda>kv. lower (fst kv)) (acc @ map (Pair key) vs))" for vs
      using Cons.prems True by (auto simp: st)
    show ?thesis
    proof (cases "extract_header_values new key False \<noteq> []")
      case nonempty: True
      have "''content-length'' \<notin> set (map (\<lambda>kv. lower (fst kv))
          (snd (insert key checked, acc @ map (Pair key) (extract_header_values new key False))))"
        using ok by simp
      from Cons.IH [OF this] True nonempty show ?thesis by (simp add: kv st)
    next
      case empty: False
      have "''content-length'' \<notin> set (map (\<lambda>kv. lower (fst kv))
          (snd (insert key checked, acc @ map (Pair key) (extract_header_values stored key False))))"
        using ok by simp
      from Cons.IH [OF this] True empty show ?thesis by (simp add: kv st)
    qed
  next
    case False
    then have "stored_loop stored new (kv # xs) st = stored_loop stored new xs st"
      by (auto simp: kv st)
    with Cons show ?thesis by simp
  qed
qed

lemma extract_single_cases:
  "extract_header_values hs k True = [] \<or> (\<exists>v. extract_header_values hs k True = [v])"
  by (cases "filter (\<lambda>kv. lower (fst kv) = lower k) hs") (simp_all add: extract_header_values_def)

lemma first_value_total:
  "first_value hs k = Inr (case extract_header_values hs k True of [] \<Rightarrow> None | v # _ \<Rightarrow> Some v)"
proof (cases "extract_header_values hs k True")
  case Nil
  then have "\<not> header_presents hs k"
    using extract_single_nonempty [of hs k] by simp
  with Nil show ?thesis by (simp add: first_value_def)
next
  case (Cons v vs)
  then have "header_presents hs k"
    using extract_single_nonempty [of hs k] by simp
  with Cons show ?thesis by (simp add: first_value_def index0_def)
qed

lemma precondition_of_first:
  "(if truthy (case extract_header_values hs k True of [] \<Rightarrow> None | v # _ \<Rightarrow> Some v)
    then [(name, the (case extract_header_values hs k True of [] \<Rightarrow> None | v # _ \<Rightarrow> Some v))]
    else [])
   = map (Pair name) (filter (\<lambda>v. v \<noteq> []) (extract_header_values hs k True))"
  using extract_single_cases [of hs k] by (auto simp: truthy_def)

lemmas lower_simps = lower_def lower_byte_def
lemmas header_simps = extract_header_values_def extract_header_values_decoded_def header_presents_def lower_simps

lemmas parser_simps = CacheControl_from_value_def parse_token_def empty_directives_def strip_def
  is_space_def parse_int_def digit_value_def

lemmas date_simps = parse_imf_fixdate_def slice_def month_number_def days_from_civil_def

lemmas sample_simps = get_request_def r_validators_def r_empty_last_modified_def r_expires_only_def
  r_found_def r_plain_def r_expires_def r_maxage_expires_def

lemma r_maxage_expires_facts: "max_age (CacheControl_from_value (extract_header_values_decoded (response_headers r_maxage_expires) ''Cache-Control'' False)) = Some 100"
  by (simp add: r_maxage_expires_def header_simps parser_simps)

lemma r_expires_facts: "max_age (CacheControl_from_value (extract_header_values_decoded (response_headers r_expires) ''Cache-Control'' False)) = None
        \<and> extract_header_values_decoded (response_headers r_expires) ''expires'' True = [''Sun, 06 Nov 1994 09:49:37 GMT'']
        \<and> extract_header_values_decoded (response_headers r_expires) ''date'' True = [''Sun, 06 Nov 1994 08:49:37 GMT'']
        \<and> parse_imf_fixdate ''Sun, 06 Nov 1994 09:49:37 GMT'' = Inr 784115377
        \<and> parse_imf_fixdate ''Sun, 06 Nov 1994 08:49:37 GMT'' = Inr 784111777"
  by (simp add: r_expires_def header_simps parser_simps date_simps)

lemma r_plain_facts: "max_age (CacheControl_from_value (extract_header_values_decoded (response_headers r_plain) ''Cache-Control'' False)) = None
        \<and> \<not> header_presents (response_headers r_plain) ''expires''"
  by (simp add: r_plain_def header_simps parser_simps)

lemma r_bad_expires_facts: "max_age (CacheControl_from_value (extract_header_values_decoded (response_headers r_bad_expires) ''Cache-Control'' False)) = None
   \<and> extract_header_values_decoded (response_headers r_bad_expires) ''expires'' True = [''0'']
   \<and> parse_imf_fixdate ''0'' = Inl DateParseError"
  by (simp add: r_bad_expires_def header_simps parser_simps date_simps)

lemma r_expires_only_facts: "max_age (CacheControl_from_value (extract_header_values_decoded (response_headers r_expires_only) ''Cache-Control'' False)) = None
   \<and> extract_header_values_decoded (response_headers r_expires_only) ''expires'' True = [''Sun, 06 Nov 1994 09:49:37 GMT'']
   \<and> parse_imf_fixdate ''Sun, 06 Nov 1994 09:49:37 GMT'' = Inr 784115377
   \<and> \<not> header_presents (response_headers r_expires_only) ''date''"
  by (simp add: r_expires_only_def header_simps parser_simps date_simps)

lemma r_bad_date_facts: "max_age (CacheControl_from_value (extract_header_values_decoded (response_headers r_bad_date) ''Cache-Control'' False)) = None
   \<and> extract_header_values_decoded (response_headers r_bad_date) ''expires'' True = [''Sun, 06 Nov 1994 09:49:37 GMT'']
   \<and> parse_imf_fixdate ''Sun, 06 Nov 1994 09:49:37 GMT'' = Inr 784115377
   \<and> extract_header_values_decoded (response_headers r_bad_date) ''date'' True = [''yesterday'']
   \<and> parse_imf_fixdate ''yesterday'' = Inl DateParseError"
  by (simp add: r_bad_date_def header_simps parser_simps date_simps)

lemma found_facts:
  "cacheable_methods (Controller_init None (Some [302])) = cacheable_methods (Controller_init None None)
   \<and> decode_ascii (request_method get_request) = Inr ''GET''
   \<and> ''GET'' \<in> set (cacheable_methods (Controller_init None (Some [302])))
   \<and> status r_found div 100 \<noteq> 1
   \<and> \<not> no_store (CacheControl_from_value (extract_header_values_decoded (response_headers r_found) ''cache-control'' False))
   \<and> \<not> public (CacheControl_from_value (extract_header_values_decoded (response_headers r_found) ''cache-control'' False))
   \<and> \<not> private_directive (CacheControl_from_value (extract_header_values_decoded (response_headers r_found) ''cache-control'' False))
   \<and> max_age (CacheControl_from_value (extract_header_values_decoded (response_headers r_found) ''cache-control'' False)) = None
   \<and> \<not> header_presents (response_headers r_found) ''expiers''"
  by (simp add: Controller_init_def decode_ascii_def get_request_def r_found_def header_simps parser_simps)

lemma r_validators_facts:
  "\<not> no_cache (CacheControl_from_value (extract_header_values_decoded (response_headers r_validators) ''Cache-Control'' False))
   \<and> must_revalidate (CacheControl_from_value (extract_header_values_decoded (response_headers r_validators) ''Cache-Control'' False))
   \<and> max_age (CacheControl_from_value (extract_header_values_decoded (response_headers r_validators) ''Cache-Control'' False)) = Some 100"
  by (simp add: r_validators_def header_simps parser_simps)

lemma r_validators_lifetime:
  "get_freshness_lifetime self CacheControl_from_value parse_imf_fixdate r_validators = Inr (Some 100)"
  using r_validators_facts by (simp add: get_freshness_lifetime_def)

lemma r_validators_stale:
  "alloweed_stale self CacheControl_from_value r_validators = False"
  using r_validators_facts by (simp add: alloweed_stale_def)

lemma r_validators_age:
  "get_age self parse_imf_fixdate now r_validators = Inr \<lfloor>max 0 now\<rfloor>"
  by (simp add: get_age_def index0_def r_validators_def header_simps date_simps parse_int_def digit_value_def)

lemma r_validators_conditional:
  "make_request_conditional self get_request r_validators =
     Inr \<lparr> request_method = ''GET'', request_headers =
       [(''Host'', ''example.org''),
        (''If-Unmodified-Since'', ''Wed, 31 Dec 1969 00:00:00 GMT''),
        (''If-None-Match'', ''v1'')] \<rparr>"
  by (simp add: make_request_conditional_def first_value_def index0_def truthy_def
      r_validators_def get_request_def header_simps)

lemma r_expires_only_cachability_facts:
  "decode_ascii (request_method get_request) = Inr ''GET''
   \<and> ''GET'' \<in> set (cacheable_methods (Controller_init None None))
   \<and> status r_expires_only div 100 \<noteq> 1
   \<and> \<not> no_store (CacheControl_from_value (extract_header_values_decoded (response_headers r_expires_only) ''cache-control'' False))
   \<and> \<not> public (CacheControl_from_value (extract_header_values_decoded (response_headers r_expires_only) ''cache-control'' False))
   \<and> \<not> private_directive (CacheControl_from_value (extract_header_values_decoded (response_headers r_expires_only) ''cache-control'' False))
   \<and> max_age (CacheControl_from_value (extract_header_values_decoded (response_headers r_expires_only) ''cache-control'' False)) = None
   \<and> status r_expires_only \<notin> set HEURISTICALLY_CACHABLE
   \<and> \<not> header_presents (response_headers r_expires_only) ''expiers''
   \<and> header_presents (response_headers r_expires_only) ''expires''"
  by (simp add: decode_ascii_def Controller_init_def HEURISTICALLY_CACHABLE_def
      get_request_def r_expires_only_def header_simps CacheControl_from_value_def empty_directives_def)

subsection \<open>Serving from the cache\<close>

text \<open>
  Claim C1. A stored response without \<^verbatim>\<open>no-cache\<close>, with a known freshness lifetime,
  an age above that lifetime and \<^verbatim>\<open>must-revalidate\<close> is to be revalidated: the request is
  made conditional and returned. The code computes \<^verbatim>\<open>is_fresh = age > freshness_lifetime\<close>
  (line 174), so an expired entry counts as fresh. Evaluated on a response with
  \<^verbatim>\<open>max-age=100, must-revalidate\<close> at age 150, \<^verbatim>\<open>construct_response_from_cache\<close> returns
  the stored response and leaves the request without precondition headers.
\<close>

theorem construct_response_from_cache_expired_served:
  "get_freshness_lifetime (Controller_init None None) CacheControl_from_value parse_imf_fixdate r_validators
     = Inr (Some 100)
   \<and> get_age (Controller_init None None) parse_imf_fixdate 150 r_validators = Inr 150
   \<and> alloweed_stale (Controller_init None None) CacheControl_from_value r_validators = False
   \<and> construct_response_from_cache (Controller_init None None) CacheControl_from_value parse_imf_fixdate
       150 get_request r_validators
     = Inr (ReturnedResponse r_validators, get_request)"
  using r_validators_facts
  by (simp add: construct_response_from_cache_def r_validators_lifetime r_validators_stale
      r_validators_age)

text \<open>
  Claim C2. A stored response without \<^verbatim>\<open>no-cache\<close> whose age does not exceed its known
  freshness lifetime is to be returned as it is, whether or not \<^verbatim>\<open>must-revalidate\<close> is
  present. With the comparison of line 174 such an entry counts as not fresh. Evaluated on
  the same response at age 50, \<^verbatim>\<open>construct_response_from_cache\<close> extends the request with
  the precondition headers and returns the class \<^verbatim>\<open>Request\<close> (line 181), not the stored
  response.
\<close>

theorem construct_response_from_cache_within_lifetime_not_served:
  "get_freshness_lifetime (Controller_init None None) CacheControl_from_value parse_imf_fixdate r_validators
     = Inr (Some 100)
   \<and> get_age (Controller_init None None) parse_imf_fixdate 50 r_validators = Inr 50
   \<and> construct_response_from_cache (Controller_init None None) CacheControl_from_value parse_imf_fixdate
       50 get_request r_validators
     = Inr (ReturnedRequestClass,
         \<lparr> request_method = ''GET'', request_headers =
            [(''Host'', ''example.org''),
             (''If-Unmodified-Since'', ''Wed, 31 Dec 1969 00:00:00 GMT''),
             (''If-None-Match'', ''v1'')] \<rparr>)"
  using r_validators_facts
  by (simp add: construct_response_from_cache_def r_validators_lifetime r_validators_stale
      r_validators_age r_validators_conditional)

text \<open>
  Claim C3. With an unknown freshness lifetime the entry is to be treated as not fresh,
  without raising. In the code \<^verbatim>\<open>age > freshness_lifetime\<close> compares an integer with
  \<^verbatim>\<open>None\<close>. Evaluated on a response with a \<^verbatim>\<open>Date\<close> header, no \<^verbatim>\<open>Cache-Control\<close> and
  no \<^verbatim>\<open>Expires\<close>, for which \<^verbatim>\<open>alloweed_stale\<close> is true,
  \<^verbatim>\<open>construct_response_from_cache\<close> raises \<^verbatim>\<open>TypeError\<close>.
\<close>

theorem construct_response_from_cache_unknown_lifetime_raises:
  "\<not> no_cache (CacheControl_from_value (extract_header_values_decoded (response_headers r_dated) ''Cache-Control'' False))
   \<and> get_freshness_lifetime (Controller_init None None) CacheControl_from_value parse_imf_fixdate r_dated
     = Inr None
   \<and> get_age (Controller_init None None) parse_imf_fixdate 10 r_dated = Inr 10
   \<and> alloweed_stale (Controller_init None None) CacheControl_from_value r_dated = True
   \<and> construct_response_from_cache (Controller_init None None) CacheControl_from_value parse_imf_fixdate
       10 get_request r_dated
     = Inl TypeError"
proof -
  have cc: "CacheControl_from_value (extract_header_values_decoded (response_headers r_dated) ''Cache-Control'' False)
      = empty_directives"
    by (simp add: r_dated_def header_simps CacheControl_from_value_def)
  have lifetime: "get_freshness_lifetime (Controller_init None None) CacheControl_from_value parse_imf_fixdate r_dated
     = Inr None"
    unfolding get_freshness_lifetime_def cc
    by (simp add: empty_directives_def r_dated_def header_simps)
  have age: "get_age (Controller_init None None) parse_imf_fixdate 10 r_dated = Inr 10"
    by (simp add: get_age_def index0_def r_dated_def header_simps date_simps parse_int_def digit_value_def)
  have stale: "alloweed_stale (Controller_init None None) CacheControl_from_value r_dated = True"
    unfolding alloweed_stale_def cc by (simp add: empty_directives_def)
  have "construct_response_from_cache (Controller_init None None) CacheControl_from_value parse_imf_fixdate
       10 get_request r_dated = Inl TypeError"
    unfolding construct_response_from_cache_def cc lifetime age
    by (simp add: empty_directives_def)
  with cc lifetime age stale show ?thesis
    by (simp add: empty_directives_def)
qed

subsection \<open>Cacheability\<close>

text \<open>
  Claim C4. A response to a request with an allowed method, with a status that is not 1xx
  and without \<^verbatim>\<open>no-store\<close>, is to be cacheable when it carries an \<^verbatim>\<open>Expires\<close>
  header. The code tests the presence of a header named \<^verbatim>\<open>expiers\<close> (line 51), so the
  \<^verbatim>\<open>Expires\<close> header is not consulted: without \<^verbatim>\<open>public\<close>, \<^verbatim>\<open>private\<close> and
  \<^verbatim>\<open>max-age\<close>, with a status outside the heuristically cacheable set and without a header
  named \<^verbatim>\<open>expiers\<close>, \<^verbatim>\<open>is_cachable\<close> returns false, whatever the other headers are.
\<close>

theorem is_cachable_expires_not_consulted:
  "decode_ascii (request_method request) = Inr m
   \<and> m \<in> set (cacheable_methods self)
   \<and> status response div 100 \<noteq> 1
   \<and> \<not> no_store (from_value (extract_header_values_decoded (response_headers response) ''cache-control'' False))
   \<and> \<not> public (from_value (extract_header_values_decoded (response_headers response) ''cache-control'' False))
   \<and> \<not> private_directive (from_value (extract_header_values_decoded (response_headers response) ''cache-control'' False))
   \<and> max_age (from_value (extract_header_values_decoded (response_headers response) ''cache-control'' False)) = None
   \<and> status response \<notin> set HEURISTICALLY_CACHABLE
   \<and> \<not> header_presents (response_headers response) ''expiers''
   \<longrightarrow> is_cachable self from_value request response = Inr False"
  by (simp add: is_cachable_def)

text \<open>
  Evaluated on a \<^verbatim>\<open>GET\<close> request and a 302 response whose only header is \<^verbatim>\<open>Expires\<close>:
  the header is present and \<^verbatim>\<open>is_cachable\<close> returns false.
\<close>

theorem is_cachable_expires_not_consulted_witness:
  "header_presents (response_headers r_expires_only) ''expires''
   \<and> is_cachable (Controller_init None None) CacheControl_from_value get_request r_expires_only = Inr False"
  using r_expires_only_cachability_facts
    is_cachable_expires_not_consulted [where request = get_request and m = "''GET''"
      and self = "Controller_init None None" and response = r_expires_only
      and from_value = CacheControl_from_value]
  by blast

subsection \<open>Merging headers\<close>

text \<open>
  Claim C5. \<^verbatim>\<open>get_updated_headers\<close> is to process each header name once, names being
  compared without regard to case. The set \<^verbatim>\<open>checked\<close> holds the names as they are
  spelt, and the second loop never adds to it. Evaluated on a stored \<^verbatim>\<open>ETag\<close> and a new
  \<^verbatim>\<open>etag\<close>, the new value comes out twice, under both spellings; evaluated on no stored
  headers and two new \<^verbatim>\<open>Link\<close> pairs, both values come out twice.
\<close>

theorem get_updated_headers_repeats_names:
  "get_updated_headers (Controller_init None None) [(''ETag'', ''a'')] [(''etag'', ''b'')]
     = [(''ETag'', ''b''), (''etag'', ''b'')]
   \<and> get_updated_headers (Controller_init None None) [] [(''Link'', ''x''), (''Link'', ''y'')]
     = [(''Link'', ''x''), (''Link'', ''y''), (''Link'', ''x''), (''Link'', ''y'')]"
  by (simp add: get_updated_headers_def header_simps)

subsection \<open>Freshness lifetime\<close>

text \<open>
  Claim C6, as the code has it. For a response without \<^verbatim>\<open>max-age\<close> and with an
  \<^verbatim>\<open>Expires\<close> header, \<^verbatim>\<open>get_freshness_lifetime\<close> does not turn a failure into an unknown
  lifetime: when the first \<^verbatim>\<open>Expires\<close> value fails to parse it raises what \<^verbatim>\<open>parse_date\<close>
  raised; when that value parses and there is no \<^verbatim>\<open>Date\<close> header it raises
  \<^verbatim>\<open>IndexError\<close>; when the first \<^verbatim>\<open>Date\<close> value fails to parse it raises what
  \<^verbatim>\<open>parse_date\<close> raised.
\<close>

theorem get_freshness_lifetime_propagates:
  "max_age (from_value (extract_header_values_decoded (response_headers response) ''Cache-Control'' False)) = None
   \<and> extract_header_values_decoded (response_headers response) ''expires'' True = [expires]
   \<longrightarrow>
     (parse_date expires = Inl e
        \<longrightarrow> get_freshness_lifetime self from_value parse_date response = Inl e)
   \<and> (parse_date expires = Inr expires_timestamp
        \<and> \<not> header_presents (response_headers response) ''date''
        \<longrightarrow> get_freshness_lifetime self from_value parse_date response = Inl IndexError)
   \<and> (parse_date expires = Inr expires_timestamp
        \<and> extract_header_values_decoded (response_headers response) ''date'' True = [date]
        \<and> parse_date date = Inl e
        \<longrightarrow> get_freshness_lifetime self from_value parse_date response = Inl e)"
proof (intro impI)
  assume a: "max_age (from_value (extract_header_values_decoded (response_headers response) ''Cache-Control'' False)) = None
   \<and> extract_header_values_decoded (response_headers response) ''expires'' True = [expires]"
  then have "extract_header_values (response_headers response) ''expires'' True \<noteq> []"
    by (simp add: extract_header_values_decoded_def)
  then have present: "header_presents (response_headers response) ''expires''"
    by (simp add: extract_single_nonempty)
  have no_date: "extract_header_values_decoded (response_headers response) ''date'' True = []"
    if "\<not> header_presents (response_headers response) ''date''"
    using that extract_single_nonempty [of "response_headers response" "''date''"]
    by (simp add: extract_header_values_decoded_def)
  show "(parse_date expires = Inl e
        \<longrightarrow> get_freshness_lifetime self from_value parse_date response = Inl e)
   \<and> (parse_date expires = Inr expires_timestamp
        \<and> \<not> header_presents (response_headers response) ''date''
        \<longrightarrow> get_freshness_lifetime self from_value parse_date response = Inl IndexError)
   \<and> (parse_date expires = Inr expires_timestamp
        \<and> extract_header_values_decoded (response_headers response) ''date'' True = [date]
        \<and> parse_date date = Inl e
        \<longrightarrow> get_freshness_lifetime self from_value parse_date response = Inl e)"
    using a present no_date
    by (simp add: get_freshness_lifetime_def index0_def)
qed

text \<open>
  The three cases at concrete responses: an \<^verbatim>\<open>Expires\<close> value that is no date, no
  \<^verbatim>\<open>Date\<close> header, a \<^verbatim>\<open>Date\<close> value that is no date.
\<close>

theorem get_freshness_lifetime_propagates_witness:
  "get_freshness_lifetime (Controller_init None None) CacheControl_from_value parse_imf_fixdate r_bad_expires
     = Inl DateParseError
   \<and> get_freshness_lifetime (Controller_init None None) CacheControl_from_value parse_imf_fixdate r_expires_only
     = Inl IndexError
   \<and> get_freshness_lifetime (Controller_init None None) CacheControl_from_value parse_imf_fixdate r_bad_date
     = Inl DateParseError"
  using r_bad_expires_facts r_expires_only_facts r_bad_date_facts
    get_freshness_lifetime_propagates [of CacheControl_from_value r_bad_expires "''0''"
      parse_imf_fixdate DateParseError "Controller_init None None"]
    get_freshness_lifetime_propagates [of CacheControl_from_value r_expires_only
      "''Sun, 06 Nov 1994 09:49:37 GMT''" parse_imf_fixdate _ "Controller_init None None" 784115377]
    get_freshness_lifetime_propagates [of CacheControl_from_value r_bad_date
      "''Sun, 06 Nov 1994 09:49:37 GMT''" parse_imf_fixdate DateParseError "Controller_init None None" 784115377
      "''yesterday''"]
  by simp

text \<open>
  Claim C6 as stated fails: a response with an \<^verbatim>\<open>Expires\<close> header, no \<^verbatim>\<open>max-age\<close> and
  no \<^verbatim>\<open>Date\<close> header does not give the unknown lifetime.
\<close>

theorem get_freshness_lifetime_missing_date_counterexample:
  "max_age (CacheControl_from_value
      (extract_header_values_decoded (response_headers r_expires_only) ''Cache-Control'' False)) = None
   \<and> header_presents (response_headers r_expires_only) ''expires''
   \<and> \<not> header_presents (response_headers r_expires_only) ''date''
   \<and> get_freshness_lifetime (Controller_init None None) CacheControl_from_value parse_imf_fixdate r_expires_only
       \<noteq> Inr None"
  by (simp add: get_freshness_lifetime_def index0_def r_expires_only_def header_simps
      parser_simps date_simps)

text \<open>
  Claim C7. When \<^verbatim>\<open>Cache-Control\<close> carries \<^verbatim>\<open>max-age\<close> with an integer value,
  \<^verbatim>\<open>get_freshness_lifetime\<close> returns that value, whatever \<^verbatim>\<open>Expires\<close> says; without
  \<^verbatim>\<open>max-age\<close> and with \<^verbatim>\<open>Expires\<close> and \<^verbatim>\<open>Date\<close> headers whose first values parse, it
  returns the difference of the two timestamps; without \<^verbatim>\<open>max-age\<close> and without
  \<^verbatim>\<open>Expires\<close> it returns the unknown lifetime.
\<close>

theorem get_freshness_lifetime_sources:
  "(max_age (from_value (extract_header_values_decoded (response_headers response) ''Cache-Control'' False)) = Some m
      \<longrightarrow> get_freshness_lifetime self from_value parse_date response = Inr (Some m))
   \<and> (max_age (from_value (extract_header_values_decoded (response_headers response) ''Cache-Control'' False)) = None
        \<and> extract_header_values_decoded (response_headers response) ''expires'' True = [expires]
        \<and> extract_header_values_decoded (response_headers response) ''date'' True = [date]
        \<and> parse_date expires = Inr expires_timestamp
        \<and> parse_date date = Inr date_timestamp
      \<longrightarrow> get_freshness_lifetime self from_value parse_date response
            = Inr (Some (expires_timestamp - date_timestamp)))
   \<and> (max_age (from_value (extract_header_values_decoded (response_headers response) ''Cache-Control'' False)) = None
        \<and> \<not> header_presents (response_headers response) ''expires''
      \<longrightarrow> get_freshness_lifetime self from_value parse_date response = Inr None)"
proof (intro conjI impI)
  assume "max_age (from_value (extract_header_values_decoded (response_headers response) ''Cache-Control'' False)) = Some m"
  then show "get_freshness_lifetime self from_value parse_date response = Inr (Some m)"
    by (simp add: get_freshness_lifetime_def)
next
  assume a: "max_age (from_value (extract_header_values_decoded (response_headers response) ''Cache-Control'' False)) = None
        \<and> extract_header_values_decoded (response_headers response) ''expires'' True = [expires]
        \<and> extract_header_values_decoded (response_headers response) ''date'' True = [date]
        \<and> parse_date expires = Inr expires_timestamp
        \<and> parse_date date = Inr date_timestamp"
  then have "extract_header_values (response_headers response) ''expires'' True \<noteq> []"
    by (simp add: extract_header_values_decoded_def)
  then have "header_presents (response_headers response) ''expires''"
    by (simp add: extract_single_nonempty)
  with a show "get_freshness_lifetime self from_value parse_date response
              = Inr (Some (expires_timestamp - date_timestamp))"
    by (simp add: get_freshness_lifetime_def index0_def)
next
  assume "max_age (from_value (extract_header_values_decoded (response_headers response) ''Cache-Control'' False)) = None
        \<and> \<not> header_presents (response_headers response) ''expires''"
  then show "get_freshness_lifetime self from_value parse_date response = Inr None"
    by (simp add: get_freshness_lifetime_def)
qed

text \<open>
  The three cases at concrete responses; in the first, \<^verbatim>\<open>Expires\<close> alone would give a
  lifetime of 3600.
\<close>

theorem get_freshness_lifetime_sources_witness:
  "get_freshness_lifetime (Controller_init None None) CacheControl_from_value parse_imf_fixdate r_maxage_expires
     = Inr (Some 100)
   \<and> get_freshness_lifetime (Controller_init None None) CacheControl_from_value parse_imf_fixdate r_expires
     = Inr (Some 3600)
   \<and> get_freshness_lifetime (Controller_init None None) CacheControl_from_value parse_imf_fixdate r_plain
     = Inr None"
  using r_maxage_expires_facts r_expires_facts r_plain_facts
    get_freshness_lifetime_sources [of CacheControl_from_value r_maxage_expires 100
       "Controller_init None None" parse_imf_fixdate]
    get_freshness_lifetime_sources [of CacheControl_from_value r_expires _
       "Controller_init None None" parse_imf_fixdate
       "''Sun, 06 Nov 1994 09:49:37 GMT''" "''Sun, 06 Nov 1994 08:49:37 GMT''" 784115377 784111777]
    get_freshness_lifetime_sources [of CacheControl_from_value r_plain _
       "Controller_init None None" parse_imf_fixdate]
  by simp

subsection \<open>Conditional requests\<close>

text \<open>
  Claim C8, as the code has it. \<^verbatim>\<open>make_request_conditional\<close> never raises. It appends to
  the request headers, in this order, \<^verbatim>\<open>If-Unmodified-Since\<close> with the first stored
  \<^verbatim>\<open>Last-Modified\<close> value when that header is present and this value is not empty, then
  \<^verbatim>\<open>If-None-Match\<close> with the first stored \<^verbatim>\<open>ETag\<close> value when that header is present and
  this value is not empty; the headers the request had stay, in place and unchanged, and so
  does the rest of the request. When the stored response has neither header the request is
  unchanged.
\<close>

theorem make_request_conditional_appends:
  "make_request_conditional self request response =
     Inr (request\<lparr>request_headers := request_headers request
        @ map (Pair ''If-Unmodified-Since'')
            (filter (\<lambda>v. v \<noteq> []) (extract_header_values (response_headers response) ''last-modified'' True))
        @ map (Pair ''If-None-Match'')
            (filter (\<lambda>v. v \<noteq> []) (extract_header_values (response_headers response) ''etag'' True))\<rparr>)
   \<and> (\<not> header_presents (response_headers response) ''last-modified''
        \<and> \<not> header_presents (response_headers response) ''etag''
      \<longrightarrow> make_request_conditional self request response = Inr request)"
proof -
  have main: "make_request_conditional self request response =
     Inr (request\<lparr>request_headers := request_headers request
        @ map (Pair ''If-Unmodified-Since'')
            (filter (\<lambda>v. v \<noteq> []) (extract_header_values (response_headers response) ''last-modified'' True))
        @ map (Pair ''If-None-Match'')
            (filter (\<lambda>v. v \<noteq> []) (extract_header_values (response_headers response) ''etag'' True))\<rparr>)"
    unfolding make_request_conditional_def first_value_total
    by (simp only: sum.case Let_def precondition_of_first)
  have "make_request_conditional self request response = Inr request"
    if "\<not> header_presents (response_headers response) ''last-modified''"
      and "\<not> header_presents (response_headers response) ''etag''"
  proof -
    from that have "extract_header_values (response_headers response) ''last-modified'' True = []"
      and "extract_header_values (response_headers response) ''etag'' True = []"
      using extract_single_nonempty by blast+
    then show ?thesis by (simp add: main)
  qed
  with main show ?thesis by blast
qed

text \<open>
  Both parts at concrete messages: a stored response with both validators, and one with
  neither.
\<close>

theorem make_request_conditional_appends_witness:
  "make_request_conditional (Controller_init None None) get_request r_validators =
     Inr \<lparr> request_method = ''GET'', request_headers =
       [(''Host'', ''example.org''),
        (''If-Unmodified-Since'', ''Wed, 31 Dec 1969 00:00:00 GMT''),
        (''If-None-Match'', ''v1'')] \<rparr>
   \<and> \<not> header_presents (response_headers r_plain) ''last-modified''
   \<and> \<not> header_presents (response_headers r_plain) ''etag''
   \<and> make_request_conditional (Controller_init None None) get_request r_plain = Inr get_request"
  using make_request_conditional_appends [of "Controller_init None None" get_request r_validators]
    make_request_conditional_appends [of "Controller_init None None" get_request r_plain]
  by (simp add: sample_simps header_simps)

text \<open>
  Claim C8 as stated fails: a stored \<^verbatim>\<open>Last-Modified\<close> header with an empty value is
  present, and no \<^verbatim>\<open>If-Unmodified-Since\<close> header is appended (\<^verbatim>\<open>if last_modified:\<close> is
  false for the empty byte string).
\<close>

theorem make_request_conditional_empty_value_counterexample:
  "header_presents (response_headers r_empty_last_modified) ''last-modified''
   \<and> extract_header_values (response_headers r_empty_last_modified) ''last-modified'' False = ['''']
   \<and> make_request_conditional (Controller_init None None) get_request r_empty_last_modified =
       Inr \<lparr> request_method = ''GET'', request_headers =
         [(''Host'', ''example.org''), (''If-None-Match'', ''v1'')] \<rparr>"
  by (simp add: make_request_conditional_def first_value_def index0_def truthy_def
      sample_simps header_simps)

subsection \<open>The merge excludes Content-Length\<close>

text \<open>
  Claim C9. For every pair of stored and new header lists, the list returned by
  \<^verbatim>\<open>get_updated_headers\<close> has no pair whose name, compared without regard to case,
  is \<^verbatim>\<open>Content-Length\<close>.
\<close>

theorem get_updated_headers_excludes_content_length:
  "''content-length'' \<notin> set (map (\<lambda>kv. lower (fst kv))
      (get_updated_headers self stored_response_headers new_response_headers))"
proof -
  obtain checked acc where st:
    "stored_loop stored_response_headers new_response_headers stored_response_headers ({}, []) = (checked, acc)"
    by (cases "stored_loop stored_response_headers new_response_headers stored_response_headers ({}, [])")
  have "''content-length'' \<notin> set (map (\<lambda>kv. lower (fst kv)) (snd (({}::bytes set), ([]::headers))))"
    by simp
  from stored_loop_excludes [OF this, of stored_response_headers new_response_headers stored_response_headers]
  have "''content-length'' \<notin> set (map (\<lambda>kv. lower (fst kv)) acc)"
    by (simp add: st)
  from new_loop_excludes [OF this] show ?thesis
    by (simp add: get_updated_headers_def st)
qed

theorem get_updated_headers_excludes_content_length_witness:
  "get_updated_headers (Controller_init None None)
       [(''Content-Length'', ''10''), (''ETag'', ''a'')]
       [(''content-length'', ''20''), (''ETag'', ''b''), (''CONTENT-LENGTH'', ''30'')]
     = [(''ETag'', ''b'')]
   \<and> ''content-length'' \<notin> set (map (\<lambda>kv. lower (fst kv))
       (get_updated_headers (Controller_init None None)
          [(''Content-Length'', ''10''), (''ETag'', ''a'')]
          [(''content-length'', ''20''), (''ETag'', ''b''), (''CONTENT-LENGTH'', ''30'')]))"
  using get_updated_headers_excludes_content_length
    [of "Controller_init None None" "[(''Content-Length'', ''10''), (''ETag'', ''a'')]"
        "[(''content-length'', ''20''), (''ETag'', ''b''), (''CONTENT-LENGTH'', ''30'')]"]
  by (simp add: get_updated_headers_def header_simps)

subsection \<open>The configured status codes\<close>

text \<open>
  Claim C10. Two controllers that differ only in \<^verbatim>\<open>cacheable_status_codes\<close> give the same
  result in every operation on the same inputs. In \<^verbatim>\<open>is_cachable\<close>, when nothing but the
  status can make the response cacheable, the result is membership of the status in the
  fixed set 200, 203, 204, 206, 300, 301, 308, 404, 405, 410, 414, 501.
\<close>

theorem cacheable_status_codes_never_consulted:
  "cacheable_methods c1 = cacheable_methods c2 \<longrightarrow>
     is_cachable c1 from_value request response = is_cachable c2 from_value request response
   \<and> get_updated_headers c1 stored_response_headers new_response_headers
       = get_updated_headers c2 stored_response_headers new_response_headers
   \<and> get_freshness_lifetime c1 from_value parse_date response
       = get_freshness_lifetime c2 from_value parse_date response
   \<and> get_age c1 parse_date now response = get_age c2 parse_date now response
   \<and> make_request_conditional c1 request response = make_request_conditional c2 request response
   \<and> alloweed_stale c1 from_value response = alloweed_stale c2 from_value response
   \<and> construct_response_from_cache c1 from_value parse_date now request response
       = construct_response_from_cache c2 from_value parse_date now request response
   \<and> handle_validation_response c1 response new_response
       = handle_validation_response c2 response new_response
   \<and> (decode_ascii (request_method request) = Inr m
        \<and> m \<in> set (cacheable_methods c1)
        \<and> status response div 100 \<noteq> 1
        \<and> \<not> no_store (from_value (extract_header_values_decoded (response_headers response) ''cache-control'' False))
        \<and> \<not> public (from_value (extract_header_values_decoded (response_headers response) ''cache-control'' False))
        \<and> \<not> private_directive (from_value (extract_header_values_decoded (response_headers response) ''cache-control'' False))
        \<and> max_age (from_value (extract_header_values_decoded (response_headers response) ''cache-control'' False)) = None
        \<and> \<not> header_presents (response_headers response) ''expiers''
      \<longrightarrow> is_cachable c1 from_value request response
            = Inr (status response \<in> {200, 203, 204, 206, 300, 301, 308, 404, 405, 410, 414, 501}))"
proof (intro impI conjI)
  assume eq: "cacheable_methods c1 = cacheable_methods c2"
  show "is_cachable c1 from_value request response = is_cachable c2 from_value request response"
    unfolding is_cachable_def eq ..
  show "get_updated_headers c1 stored_response_headers new_response_headers
       = get_updated_headers c2 stored_response_headers new_response_headers"
    by (simp add: get_updated_headers_def)
  show "get_freshness_lifetime c1 from_value parse_date response
       = get_freshness_lifetime c2 from_value parse_date response"
    by (simp add: get_freshness_lifetime_def)
  show "get_age c1 parse_date now response = get_age c2 parse_date now response"
    by (simp add: get_age_def)
  show "make_request_conditional c1 request response = make_request_conditional c2 request response"
    by (simp add: make_request_conditional_def)
  show "alloweed_stale c1 from_value response = alloweed_stale c2 from_value response"
    by (simp add: alloweed_stale_def)
  show "construct_response_from_cache c1 from_value parse_date now request response
       = construct_response_from_cache c2 from_value parse_date now request response"
  proof -
    have "get_freshness_lifetime c1 = get_freshness_lifetime c2"
      by (intro ext) (simp add: get_freshness_lifetime_def)
    moreover have "get_age c1 = get_age c2"
      by (intro ext) (simp add: get_age_def)
    moreover have "alloweed_stale c1 = alloweed_stale c2"
      by (intro ext) (simp add: alloweed_stale_def)
    moreover have "make_request_conditional c1 = make_request_conditional c2"
      by (intro ext) (simp add: make_request_conditional_def)
    ultimately show ?thesis
      by (simp only: construct_response_from_cache_def)
  qed
  show "handle_validation_response c1 response new_response
       = handle_validation_response c2 response new_response"
    by (simp add: handle_validation_response_def get_updated_headers_def)
next
  assume "decode_ascii (request_method request) = Inr m
        \<and> m \<in> set (cacheable_methods c1)
        \<and> status response div 100 \<noteq> 1
        \<and> \<not> no_store (from_value (extract_header_values_decoded (response_headers response) ''cache-control'' False))
        \<and> \<not> public (from_value (extract_header_values_decoded (response_headers response) ''cache-control'' False))
        \<and> \<not> private_directive (from_value (extract_header_values_decoded (response_headers response) ''cache-control'' False))
        \<and> max_age (from_value (extract_header_values_decoded (response_headers response) ''cache-control'' False)) = None
        \<and> \<not> header_presents (response_headers response) ''expiers''"
  then show "is_cachable c1 from_value request response
            = Inr (status response \<in> {200, 203, 204, 206, 300, 301, 308, 404, 405, 410, 414, 501})"
    by (simp add: is_cachable_def HEURISTICALLY_CACHABLE_def)
qed

text \<open>
  A controller configured with the status 302 and the default controller both refuse a 302
  response that has no headers.
\<close>

theorem cacheable_status_codes_never_consulted_witness:
  "cacheable_status_codes (Controller_init None (Some [302])) = [302]
   \<and> cacheable_status_codes (Controller_init None None) = [200]
   \<and> is_cachable (Controller_init None (Some [302])) CacheControl_from_value get_request r_found = Inr False
   \<and> is_cachable (Controller_init None None) CacheControl_from_value get_request r_found = Inr False"
proof -
  note inst = cacheable_status_codes_never_consulted [where ?c1.0 = "Controller_init None (Some [302])"
      and ?c2.0 = "Controller_init None None" and from_value = CacheControl_from_value
      and request = get_request and response = r_found and m = "''GET''"
      and stored_response_headers = "[]" and new_response_headers = "[]"
      and parse_date = parse_imf_fixdate and now = 0 and new_response = r_found]
  from inst found_facts
  have same: "is_cachable (Controller_init None (Some [302])) CacheControl_from_value get_request r_found
      = is_cachable (Controller_init None None) CacheControl_from_value get_request r_found"
    by blast
  from inst found_facts
  have fixed: "is_cachable (Controller_init None (Some [302])) CacheControl_from_value get_request r_found
      = Inr (status r_found \<in> {200, 203, 204, 206, 300, 301, 308, 404, 405, 410, 414, 501})"
    by blast
  have "status r_found = 302"
    by (simp add: r_found_def)
  with same fixed show ?thesis
    by (simp add: Controller_init_def)
qed

end
